theory Spec2Isabelle
  imports Main "HOL-Library.AList"
begin

section \<open>JavaScript values\<close>

text \<open>
  The command store is JavaScript.  Its values are embedded as a datatype; a number is
  either \<open>NaN\<close> or an integer (positions, limits, counts and timestamps are integral;
  fractions, infinities and rounding beyond \<open>2^53\<close> are outside the model).  A string is
  a list of code units below 256.  An object is an association list in property
  enumeration order, with distinct keys; its values are data, none of them a function.
\<close>

datatype jsnum = NaN | Num int

datatype jsval =
    JUndefined
  | JNull
  | JBool bool
  | JNum jsnum
  | JStr string
  | JObj "(string \<times> jsval) list"

type_synonym obj = "(string \<times> jsval) list"

text \<open>Thrown values.  \<open>RequestError\<close> is the class of \<open>server/request-error.js\<close>.\<close>

datatype js_error = RequestError string | TypeError string | Error string

text \<open>The constructor of \<open>request-error.js\<close>: \<open>message || 'The request is malformed'\<close>.\<close>

definition newRequestError :: "string \<Rightarrow> js_error" where
  "newRequestError message =
     RequestError (if message = [] then ''The request is malformed'' else message)"

text \<open>A call that either throws or returns.\<close>

type_synonym 'a throwing = "js_error + 'a"

fun js_lt :: "jsnum \<Rightarrow> jsnum \<Rightarrow> bool" where
  "js_lt (Num a) (Num b) = (a < b)"
| "js_lt _ _ = False"


fun js_sub :: "jsnum \<Rightarrow> jsnum \<Rightarrow> jsnum" where
  "js_sub (Num a) (Num b) = Num (a - b)"
| "js_sub _ _ = NaN"

text \<open>Truthiness (\<open>ToBoolean\<close>) and the \<open>typeof\<close> operator.\<close>

fun truthy :: "jsval \<Rightarrow> bool" where
  "truthy JUndefined = False"
| "truthy JNull = False"
| "truthy (JBool b) = b"
| "truthy (JNum NaN) = False"
| "truthy (JNum (Num n)) = (n \<noteq> 0)"
| "truthy (JStr s) = (s \<noteq> [])"
| "truthy (JObj ps) = True"

fun typeof :: "jsval \<Rightarrow> string" where
  "typeof JUndefined = ''undefined''"
| "typeof JNull = ''object''"
| "typeof (JBool b) = ''boolean''"
| "typeof (JNum n) = ''number''"
| "typeof (JStr s) = ''string''"
| "typeof (JObj ps) = ''object''"

text \<open>Decimal rendering of integers, and \<open>ToString\<close>.\<close>

fun string_of_nat :: "nat \<Rightarrow> string" where
  "string_of_nat n =
     (if n < 10 then [''0123456789'' ! n]
      else string_of_nat (n div 10) @ [''0123456789'' ! (n mod 10)])"

declare string_of_nat.simps [simp del]

definition string_of_int :: "int \<Rightarrow> string" where
  "string_of_int i =
     (if i < 0 then CHR ''-'' # string_of_nat (nat (- i)) else string_of_nat (nat i))"

fun to_string :: "jsval \<Rightarrow> string" where
  "to_string JUndefined = ''undefined''"
| "to_string JNull = ''null''"
| "to_string (JBool b) = (if b then ''true'' else ''false'')"
| "to_string (JNum NaN) = ''NaN''"
| "to_string (JNum (Num n)) = string_of_int n"
| "to_string (JStr s) = s"
| "to_string (JObj ps) = ''[object Object]''"

subsection \<open>\<open>isNaN\<close> and \<open>parseInt\<close>\<close>

text \<open>
  \<open>isNaN(v)\<close> is true when \<open>ToNumber(v)\<close> is \<open>NaN\<close>.  For a string that is the case when,
  after trimming white space, it is neither empty nor a numeric literal: a radix literal
  (\<open>0x\<close>, \<open>0o\<close>, \<open>0b\<close>) or a signed decimal literal with optional fraction and exponent,
  or \<open>Infinity\<close>.  Only the recognizer is needed: the code never uses the value of
  \<open>ToNumber\<close>, it calls \<open>parseInt\<close> afterwards.
\<close>

text \<open>
  White space and line terminators, as \<open>ToNumber\<close> and \<open>parseInt\<close> strip them: among the
  code units below 256 these are tab, line feed, vertical tab, form feed, carriage
  return, space and the no-break space \<open>U+00A0\<close>.
\<close>

definition is_ws :: "char \<Rightarrow> bool" where
  "is_ws c = (c \<in> set [CHR '' '', CHR 0x09, CHR 0x0A, CHR 0x0B, CHR 0x0C, CHR 0x0D, CHR 0xA0])"

definition trim_ws :: "string \<Rightarrow> string" where
  "trim_ws s = rev (dropWhile is_ws (rev (dropWhile is_ws s)))"

definition is_digit :: "char \<Rightarrow> bool" where
  "is_digit c = (c \<in> set ''0123456789'')"

definition digits_only :: "string \<Rightarrow> string \<Rightarrow> bool" where
  "digits_only alphabet s = (s \<noteq> [] \<and> list_all (\<lambda>c. c \<in> set alphabet) s)"

definition strip_sign :: "string \<Rightarrow> string" where
  "strip_sign s =
     (case s of [] \<Rightarrow> [] | c # r \<Rightarrow> if c = CHR ''+'' \<or> c = CHR ''-'' then r else s)"

definition is_exponent :: "string \<Rightarrow> bool" where
  "is_exponent s =
     (case s of [] \<Rightarrow> True
      | c # r \<Rightarrow> (c = CHR ''e'' \<or> c = CHR ''E'') \<and> digits_only ''0123456789'' (strip_sign r))"

definition is_decimal_literal :: "string \<Rightarrow> bool" where
  "is_decimal_literal s =
     (let u = strip_sign s;
          d1 = takeWhile is_digit u;
          r1 = dropWhile is_digit u;
          dot = (case r1 of [] \<Rightarrow> False | c # r \<Rightarrow> c = CHR ''.'');
          d2 = (if dot then takeWhile is_digit (tl r1) else []);
          r2 = (if dot then dropWhile is_digit (tl r1) else r1)
      in u = ''Infinity'' \<or> ((d1 \<noteq> [] \<or> d2 \<noteq> []) \<and> is_exponent r2))"

definition is_radix_literal :: "string \<Rightarrow> bool" where
  "is_radix_literal s =
     (let p = take 2 s; r = drop 2 s
      in ((p = ''0x'' \<or> p = ''0X'') \<and> digits_only ''0123456789abcdefABCDEF'' r)
       \<or> ((p = ''0o'' \<or> p = ''0O'') \<and> digits_only ''01234567'' r)
       \<or> ((p = ''0b'' \<or> p = ''0B'') \<and> digits_only ''01'' r))"

definition is_numeric_string :: "string \<Rightarrow> bool" where
  "is_numeric_string s =
     (let t = trim_ws s in t = [] \<or> is_radix_literal t \<or> is_decimal_literal t)"

fun js_isNaN :: "jsval \<Rightarrow> bool" where
  "js_isNaN JUndefined = True"
| "js_isNaN JNull = False"
| "js_isNaN (JBool b) = False"
| "js_isNaN (JNum n) = (n = NaN)"
| "js_isNaN (JStr s) = (\<not> is_numeric_string s)"
| "js_isNaN (JObj ps) = (\<not> is_numeric_string (to_string (JObj ps)))"

text \<open>
  \<open>parseInt(v)\<close> without a radix: \<open>ToString(v)\<close>, leading white space dropped, an optional
  sign, an optional \<open>0x\<close> prefix selecting radix 16, then the longest prefix of digits of
  the radix; \<open>NaN\<close> when that prefix is empty.
\<close>

definition digit_value :: "char \<Rightarrow> nat option" where
  "digit_value c = map_of
     [(CHR ''0'', 0), (CHR ''1'', 1), (CHR ''2'', 2), (CHR ''3'', 3), (CHR ''4'', 4),
      (CHR ''5'', 5), (CHR ''6'', 6), (CHR ''7'', 7), (CHR ''8'', 8), (CHR ''9'', 9),
      (CHR ''a'', 10), (CHR ''b'', 11), (CHR ''c'', 12), (CHR ''d'', 13), (CHR ''e'', 14),
      (CHR ''f'', 15), (CHR ''A'', 10), (CHR ''B'', 11), (CHR ''C'', 12), (CHR ''D'', 13),
      (CHR ''E'', 14), (CHR ''F'', 15)] c"

definition radix_digit :: "nat \<Rightarrow> char \<Rightarrow> nat option" where
  "radix_digit R c =
     (case digit_value c of None \<Rightarrow> None | Some d \<Rightarrow> if d < R then Some d else None)"

definition parseInt :: "jsval \<Rightarrow> jsnum" where
  "parseInt v =
     (let s1 = dropWhile is_ws (to_string v);
          neg = (case s1 of [] \<Rightarrow> False | c # r \<Rightarrow> c = CHR ''-'');
          s2 = strip_sign s1;
          hex = (take 2 s2 = ''0x'' \<or> take 2 s2 = ''0X'');
          R = (if hex then 16 else 10);
          s3 = (if hex then drop 2 s2 else s2);
          Z = takeWhile (\<lambda>c. radix_digit R c \<noteq> None) s3;
          n = foldl (\<lambda>a c. a * R + (case radix_digit R c of None \<Rightarrow> 0 | Some d \<Rightarrow> d)) 0 Z
      in if Z = [] then NaN else Num (if neg then - int n else int n))"

subsection \<open>Objects as dictionaries\<close>

definition has_key :: "('k \<times> 'v) list \<Rightarrow> 'k \<Rightarrow> bool" where
  "has_key ps k = (map_of ps k \<noteq> None)"

definition obj_get :: "obj \<Rightarrow> string \<Rightarrow> jsval" where
  "obj_get ps k = (case map_of ps k of None \<Rightarrow> JUndefined | Some v \<Rightarrow> v)"

text \<open>
  The own properties of a value, as \<open>v.hasOwnProperty(k)\<close> and \<open>v[k]\<close> see them.  Reading
  a property of \<open>undefined\<close> or \<open>null\<close> throws; a number or boolean has none; a string has
  its indices and \<open>length\<close>.
\<close>

fun ownProperties :: "jsval \<Rightarrow> obj throwing" where
  "ownProperties JUndefined = Inl (TypeError ''Cannot read property of undefined'')"
| "ownProperties JNull = Inl (TypeError ''Cannot read property of null'')"
| "ownProperties (JBool b) = Inr []"
| "ownProperties (JNum n) = Inr []"
| "ownProperties (JStr s) =
     Inr (zip (map string_of_nat [0..<length s]) (map (\<lambda>c. JStr [c]) s)
          @ [(''length'', JNum (Num (int (length s))))])"
| "ownProperties (JObj ps) = Inr ps"

text \<open>
  \<open>o.hasOwnProperty(k)\<close> is a method call: \<open>hasOwnProperty\<close> is looked up on \<open>o\<close> first, and
  an own property of that name shadows the method of \<open>Object.prototype\<close>.  The shadowing
  value is data, not a function, so the call throws a \<open>TypeError\<close>.  This is how the code
  reads what a request supplies: the data of \<open>add\<close> and the options of \<open>query\<close>.  (The
  registry \<open>store\<close> and its schemas are written by \<open>handle\<close> at start-up, not by requests;
  they are read as dictionaries.)
\<close>

definition hasOwnProperty :: "obj \<Rightarrow> string \<Rightarrow> bool throwing" where
  "hasOwnProperty own k =
     (if has_key own ''hasOwnProperty''
      then Inl (TypeError ''hasOwnProperty is not a function'')
      else Inr (has_key own k))"

text \<open>
  \<open>data[key] = v\<close> in strict mode (both files start with \<open>"use strict"\<close>): an object
  gets or replaces the property, anything else throws.
\<close>

fun setProp :: "jsval \<Rightarrow> string \<Rightarrow> jsval \<Rightarrow> jsval throwing" where
  "setProp (JObj ps) k v = Inr (JObj (AList.update k v ps))"
| "setProp d k v = Inl (TypeError (''Cannot create property '' @ k @ '' on '' @ to_string d))"


section \<open>The storage engine, as the code uses it\<close>

text \<open>
  The document store is a collaborator.  A promise is settled one way or the other; a
  call either throws or returns.  \<open>insertOne\<close> without a callback returns a promise;
  a cursor answers \<open>count()\<close> with a promise and \<open>skip(n)\<close> with the documents it will
  stream from there, in the store's natural order.
\<close>

datatype 'a promise = Fulfilled 'a | Rejected js_error

text \<open>
  \<open>p.then(f)\<close> for a callback that returns a plain value or throws: the value settles
  the new promise, a throw rejects it, and a rejected \<open>p\<close> skips the callback.
\<close>

fun then_p :: "'a promise \<Rightarrow> ('a \<Rightarrow> 'b throwing) \<Rightarrow> 'b promise" where
  "then_p (Fulfilled x) f = (case f x of Inl e \<Rightarrow> Rejected e | Inr y \<Rightarrow> Fulfilled y)"
| "then_p (Rejected e) f = Rejected e"

record cursor =
  count :: "int promise"
  skip :: "jsnum \<Rightarrow> (obj list) throwing"

record collection =
  insertOne :: "obj \<Rightarrow> (unit promise) throwing"
  find_cursor :: "obj \<Rightarrow> cursor throwing"

text \<open>\<open>db.collection(path)\<close>.\<close>

type_synonym db = "string \<Rightarrow> collection throwing"

text \<open>The calls the code makes on a collection, in order.\<close>

datatype storage_op =
    InsertOne string obj
  | CreateIndex string string obj

text \<open>
  A cursor over a list of documents: \<open>count()\<close> is the length, \<open>skip(n)\<close> drops \<open>n\<close>
  documents and refuses what is not a count.
\<close>

definition list_cursor :: "obj list \<Rightarrow> cursor" where
  "list_cursor docs =
     \<lparr>count = Fulfilled (int (length docs)),
      skip = (\<lambda>n. case n of
                NaN \<Rightarrow> Inl (Error ''skip requires an integer'')
              | Num k \<Rightarrow> if k < 0 then Inl (Error ''skip requires an integer'')
                         else Inr (drop (nat k) docs))\<rparr>"

section \<open>The registry: \<open>handle\<close>\<close>

text \<open>
  A configuration value that may be a function: \<open>validator\<close>, \<open>value\<close> and \<open>transform\<close>.
  A function is a HOL function that returns or throws.
\<close>

datatype hook = HVal jsval | HFun "jsval \<Rightarrow> jsval throwing"

fun truthy_hook :: "hook \<Rightarrow> bool" where
  "truthy_hook (HVal v) = truthy v"
| "truthy_hook (HFun f) = True"

fun is_function :: "hook \<Rightarrow> bool" where
  "is_function (HVal v) = False"
| "is_function (HFun f) = True"

fun call_hook :: "hook \<Rightarrow> jsval \<Rightarrow> jsval throwing" where
  "call_hook (HFun f) x = f x"
| "call_hook (HVal v) x = Inl (TypeError (to_string v @ '' is not a function''))"

text \<open>
  The rules of one index field.  The field \<open>valueFn\<close> is the property \<open>value\<close> of the
  source.  A property the configuration leaves out is \<open>undefined\<close>.
\<close>

record properties =
  defaultValue :: jsval
  required :: jsval
  type :: jsval
  validator :: hook
  valueFn :: hook

definition no_rules :: properties where
  "no_rules = \<lparr>defaultValue = JUndefined, required = JUndefined, type = JUndefined,
                validator = HVal JUndefined, valueFn = HVal JUndefined\<rparr>"

text \<open>\<open>store[path]\<close>; the \<open>subscriptions\<close> map is never read and is left out.\<close>

record entry =
  collection :: "collection promise"
  indexes :: "(string \<times> properties) list"
  keys :: "string list"
  transform :: hook

type_synonym store = "string \<rightharpoonup> entry"

text \<open>
  The \<open>indexes\<close> argument of \<open>handle\<close>: missing (\<open>undefined\<close>), \<open>null\<close>, an object of
  field rules, or a value that is no object (a string, number, boolean or function).
  The arguments after \<open>path\<close> are none, \<open>indexes\<close>, or \<open>indexes\<close> and \<open>transform\<close>.
\<close>

datatype index_arg =
    IndexUndefined
  | IndexNull
  | IndexObject "(string \<times> properties) list"
  | IndexNonObject

datatype handle_args =
    PathOnly
  | WithIndexes index_arg
  | WithTransform index_arg hook

fun arguments_length :: "handle_args \<Rightarrow> nat" where
  "arguments_length PathOnly = 1"
| "arguments_length (WithIndexes i) = 2"
| "arguments_length (WithTransform i t) = 3"

text \<open>
  \<open>Object.keys\<close> throws on \<open>undefined\<close> and \<open>null\<close>.  The keys of a value that is no object
  are never used: the \<open>typeof\<close> test of \<open>handle\<close> throws first.
\<close>

fun Object_keys :: "index_arg \<Rightarrow> (string list) throwing" where
  "Object_keys IndexUndefined = Inl (TypeError ''Cannot convert undefined or null to object'')"
| "Object_keys IndexNull = Inl (TypeError ''Cannot convert undefined or null to object'')"
| "Object_keys (IndexObject ixs) = Inr (map fst ixs)"
| "Object_keys IndexNonObject = Inr []"

text \<open>\<open>typeof indexes === 'object'\<close>, which \<open>null\<close> passes.\<close>

fun typeof_is_object :: "index_arg \<Rightarrow> bool" where
  "typeof_is_object IndexUndefined = False"
| "typeof_is_object IndexNull = True"
| "typeof_is_object (IndexObject ixs) = True"
| "typeof_is_object IndexNonObject = False"

definition validateIndex :: "string \<Rightarrow> string \<Rightarrow> properties \<Rightarrow> unit throwing" where
  "validateIndex path key item =
     (if truthy (type item) \<and> type item \<noteq> JStr ''string'' \<and> type item \<noteq> JStr ''number''
           \<and> type item \<noteq> JStr ''boolean''
      then Inl (Error (''Invalid type specified for command handler for '' @ path @ '' '' @ key
                       @ ''. Expected on of \"boolean\", \"number\", or \"string\".''))
      else if truthy_hook (validator item) \<and> \<not> is_function (validator item)
      then Inl (Error (''Invalid validator specified for command handler for '' @ path @ '' ''
                       @ key @ ''. Expected a function.''))
      else if truthy_hook (valueFn item) \<and> \<not> is_function (valueFn item)
      then Inl (Error (''Invalid value specified for command handler for '' @ path @ '' '' @ key
                       @ ''. Expected a function.''))
      else Inr ())"

fun validateKeys :: "string \<Rightarrow> (string \<times> properties) list \<Rightarrow> string list \<Rightarrow> unit throwing" where
  "validateKeys path ixs [] = Inr ()"
| "validateKeys path ixs (key # rest) =
     (case map_of ixs key of
        None \<Rightarrow> Inl (TypeError ''Cannot read property type of undefined'')
      | Some item \<Rightarrow>
         (case validateIndex path key item of
            Inl e \<Rightarrow> Inl e
          | Inr u \<Rightarrow> validateKeys path ixs rest))"

text \<open>
  \<open>exports.handle\<close>.  \<open>Object.keys(indexes)\<close> is the first statement; the default
  \<open>indexes = {}\<close> for a single argument comes after it.  The result is the new registry
  and the \<open>createIndex\<close> calls made once the collection is there.
\<close>

definition handle ::
    "db promise \<Rightarrow> store \<Rightarrow> string \<Rightarrow> handle_args \<Rightarrow> (store \<times> storage_op list) throwing" where
  "handle database store path args =
     (let indexes0 = (case args of PathOnly \<Rightarrow> IndexUndefined
                        | WithIndexes i \<Rightarrow> i | WithTransform i t \<Rightarrow> i);
          transform0 = (case args of WithTransform i t \<Rightarrow> t | _ \<Rightarrow> HVal JUndefined)
      in case Object_keys indexes0 of
           Inl e \<Rightarrow> Inl e
         | Inr ks \<Rightarrow>
            (let indexes1 = (if arguments_length args = 1 then IndexObject [] else indexes0)
             in if \<not> typeof_is_object indexes1
                then Inl (Error ''Command handler index must be an object'')
                else (case indexes1 of
                        IndexObject ixs \<Rightarrow>
                          (case validateKeys path ixs ks of
                             Inl e \<Rightarrow> Inl e
                           | Inr u \<Rightarrow>
                              if truthy_hook transform0 \<and> \<not> is_function transform0
                              then Inl (Error ''Commander handler transform must be a function'')
                              else
                                (let coll = then_p database (\<lambda>d. d path);
                                     h = \<lparr>collection = coll, indexes = ixs, keys = ks,
                                          transform = transform0\<rparr>
                                 in Inr (store(path \<mapsto> h),
                                         case coll of
                                           Rejected e \<Rightarrow> []
                                         | Fulfilled c \<Rightarrow>
                                             map (\<lambda>key. CreateIndex path (key @ ''Index'')
                                                          [(key, JNum (Num 1))]) ks)))
                      | _ \<Rightarrow> Inl (TypeError ''Cannot read property of null''))))"

section \<open>Appending a record: \<open>add\<close>\<close>

datatype content = Chunks "string list" | Documents "(jsval throwing) list"

record response =
  code :: int
  contentType :: string
  content :: content

text \<open>\<open>respond\<close> of \<open>add\<close>: the message is pushed, then the stream is ended.\<close>

definition respond :: "int \<Rightarrow> string \<Rightarrow> response" where
  "respond c message = \<lparr>code = c, contentType = ''text/plain'', content = Chunks [message]\<rparr>"

text \<open>
  The body of the \<open>forEach\<close> callback (lines 60 to 69): the value stored for one key.
  \<open>data.hasOwnProperty(key)\<close> is called on the input (lines 61 and 64) and may throw.
\<close>

definition fieldValue :: "(string \<times> properties) list \<Rightarrow> jsval \<Rightarrow> string \<Rightarrow> jsval throwing" where
  "fieldValue ixs data key =
     (case ownProperties data of
        Inl e \<Rightarrow> Inl e
      | Inr own \<Rightarrow>
         (case hasOwnProperty own key of
            Inl e \<Rightarrow> Inl e
          | Inr has \<Rightarrow>
             (case map_of ixs key of
                None \<Rightarrow> Inl (TypeError ''Cannot read property of undefined'')
              | Some properties \<Rightarrow>
                 (let v = (if has then obj_get own key else defaultValue properties)
                  in if truthy (required properties) \<and> \<not> has
                     then Inl (newRequestError (''Missing required property: '' @ key @ ''.''))
                     else if truthy (type properties) \<and> JStr (typeof v) \<noteq> type properties
                     then Inl (newRequestError (''Invalid type for property: '' @ key
                                                @ ''. Expected '' @ to_string (type properties)))
                     else (case (if truthy_hook (validator properties)
                                 then call_hook (validator properties) v else Inr (JBool True)) of
                             Inl e \<Rightarrow> Inl e
                           | Inr valid \<Rightarrow>
                              if \<not> truthy valid
                              then Inl (newRequestError (''Validation failed for property: ''
                                                         @ key @ ''.''))
                              else if truthy_hook (valueFn properties)
                              then call_hook (valueFn properties) v
                              else Inr v)))))"

text \<open>\<open>store[path].keys.forEach(...)\<close>: in order, a throw ends the loop.\<close>

fun forEachKey :: "(string \<times> properties) list \<Rightarrow> jsval \<Rightarrow> string list \<Rightarrow> obj \<Rightarrow> obj throwing" where
  "forEachKey ixs data [] item = Inr item"
| "forEachKey ixs data (key # rest) item =
     (case fieldValue ixs data key of
        Inl e \<Rightarrow> Inl e
      | Inr v \<Rightarrow> forEachKey ixs data rest (AList.update key v item))"

text \<open>\<open>if (transform) data = transform(data)\<close>.\<close>

definition applyTransform :: "entry \<Rightarrow> jsval \<Rightarrow> jsval throwing" where
  "applyTransform h data =
     (if truthy_hook (transform h) then call_hook (transform h) data else Inr data)"

text \<open>Lines 51 to 79: the object handed to \<open>insertOne\<close>, or what the \<open>try\<close> block throws.\<close>

definition buildItem :: "entry \<Rightarrow> int \<Rightarrow> jsval \<Rightarrow> obj throwing" where
  "buildItem h now data =
     (case applyTransform h data of
        Inl e \<Rightarrow> Inl e
      | Inr data' \<Rightarrow>
         (case forEachKey (indexes h) data' (keys h) [] of
            Inl e \<Rightarrow> Inl e
          | Inr item \<Rightarrow>
             Inr (AList.update ''__data'' data'
                    (AList.update ''__timestamp'' (JNum (Num now)) item))))"

text \<open>
  Lines 82 to 92.  The first callback calls \<open>collection.insertOne(item)\<close> and has no
  \<open>return\<close>: it yields \<open>undefined\<close> unless the call throws, whatever becomes of the
  promise \<open>insertOne\<close> returned.
\<close>

definition saveItem :: "entry \<Rightarrow> string \<Rightarrow> obj \<Rightarrow> response \<times> storage_op list" where
  "saveItem h path item =
     (let inserted = then_p (collection h)
                       (\<lambda>c. case insertOne c item of Inl e \<Rightarrow> Inl e | Inr p \<Rightarrow> Inr JUndefined);
          responded = then_p inserted (\<lambda>u. Inr (respond 200 []))
      in (case responded of
            Fulfilled r \<Rightarrow> r
          | Rejected err \<Rightarrow> respond 500 ''Internal server error'',
          case collection h of
            Fulfilled c \<Rightarrow> [InsertOne path item]
          | Rejected err \<Rightarrow> []))"

text \<open>The \<open>catch\<close> of \<open>add\<close>: \<open>e instanceof RequestError ? e.message : 'Internal server error'\<close>.\<close>

fun catchMessage :: "js_error \<Rightarrow> string" where
  "catchMessage (RequestError m) = m"
| "catchMessage e = ''Internal server error''"

text \<open>
  \<open>exports.add\<close>, with \<open>now\<close> the value of \<open>Date.now()\<close>: the response the promise
  resolves with, and the calls made on the collection.
\<close>

definition add :: "store \<Rightarrow> int \<Rightarrow> string \<Rightarrow> jsval \<Rightarrow> response \<times> storage_op list" where
  "add store now path data =
     (case store path of
        None \<Rightarrow> (respond 404 ''Not found'', [])
      | Some h \<Rightarrow>
         (case buildItem h now data of
            Inl e \<Rightarrow> (respond 500 (catchMessage e), [])
          | Inr item \<Rightarrow> saveItem h path item))"

section \<open>The query compiler: \<open>parseTime\<close> and \<open>buildQuery\<close>\<close>

text \<open>
  What the code takes from its surroundings: the default page size of \<open>config.js\<close>
  (not among the sources), and two built-ins whose results are implementation-defined
  or fractional: \<open>Date.parse\<close> (\<open>None\<close> for an invalid date, else milliseconds) and
  \<open>parseFloat\<close>.
\<close>

record config =
  defaultLimit :: int

record runtime =
  dateParse :: "string \<Rightarrow> int option"
  parseFloat :: "string \<Rightarrow> jsnum"

text \<open>The time value of \<open>new Date(v)\<close>: a string is parsed, any other primitive is a number.\<close>

fun new_Date :: "runtime \<Rightarrow> jsval \<Rightarrow> int option" where
  "new_Date rt (JStr s) = dateParse rt s"
| "new_Date rt (JObj ps) = dateParse rt (to_string (JObj ps))"
| "new_Date rt (JNum NaN) = None"
| "new_Date rt (JNum (Num n)) = Some n"
| "new_Date rt (JBool b) = Some (if b then 1 else 0)"
| "new_Date rt JNull = Some 0"
| "new_Date rt JUndefined = None"

definition parseTime :: "runtime \<Rightarrow> jsval \<Rightarrow> jsval" where
  "parseTime rt time =
     (if \<not> js_isNaN time then JNum (parseInt time)
      else (case new_Date rt time of None \<Rightarrow> JNull | Some t \<Rightarrow> JNum (Num t)))"

text \<open>The \<open>switch\<close> over the declared type of a filter key: what is stored in the predicate, if anything.\<close>

definition filterValue :: "runtime \<Rightarrow> jsval \<Rightarrow> jsval \<Rightarrow> jsval option" where
  "filterValue rt ty v =
     (if ty = JStr ''boolean'' then
        (let v1 = (if v = JStr ''true'' then JBool True else v);
             v2 = (if v1 = JStr ''false'' then JBool False else v1)
         in Some (JBool (truthy v2)))
      else if ty = JStr ''number'' then
        (if \<not> js_isNaN v
         then Some (JNum (if CHR ''.'' \<in> set (to_string v)
                          then parseFloat rt (to_string v) else parseInt v))
         else None)
      else Some v)"

definition filterStep :: "runtime \<Rightarrow> entry \<Rightarrow> obj \<Rightarrow> string \<Rightarrow> obj \<Rightarrow> obj" where
  "filterStep rt item filter' key result =
     (case map_of (indexes item) key of
        None \<Rightarrow> result
      | Some properties \<Rightarrow>
         (case filterValue rt (type properties) (obj_get filter' key) of
            None \<Rightarrow> result
          | Some v \<Rightarrow> AList.update key v result))"

text \<open>
  \<open>buildQuery\<close>, called with \<open>item = store[path]\<close>.  Both options are assigned to
  \<open>startTime\<close>.  \<open>options.hasOwnProperty\<close> is called on the request's options (lines 487
  and 488) and may throw; then no predicate is built.
\<close>

definition buildQuery :: "runtime \<Rightarrow> entry \<Rightarrow> obj \<Rightarrow> obj \<Rightarrow> obj throwing" where
  "buildQuery rt item filter' options =
     (let endTime = JUndefined;
          result = fold (filterStep rt item filter') (map fst filter') [];
          startTime = JUndefined
      in case hasOwnProperty options ''startTime'' of
           Inl e \<Rightarrow> Inl e
         | Inr hasStart \<Rightarrow>
            (let startTime = (if hasStart then parseTime rt (obj_get options ''startTime'')
                              else startTime)
             in case hasOwnProperty options ''endTime'' of
                  Inl e \<Rightarrow> Inl e
                | Inr hasEnd \<Rightarrow>
                   (let startTime = (if hasEnd then parseTime rt (obj_get options ''endTime'')
                                     else startTime)
                    in Inr (if typeof startTime \<noteq> ''undefined'' \<and> typeof endTime \<noteq> ''undefined''
                            then AList.update ''__timestamp''
                                   (JObj [(''$gte'', startTime), (''$lte'', endTime)]) result
                            else if typeof startTime \<noteq> ''undefined''
                            then AList.update ''__timestamp'' (JObj [(''$gte'', startTime)]) result
                            else if typeof endTime \<noteq> ''undefined''
                            then AList.update ''__timestamp'' (JObj [(''$lte'', endTime)]) result
                            else result))))"

section \<open>The paginated result: \<open>query\<close>\<close>

record query_result = response +
  limit :: int
  position :: "jsnum option"
  recordsCount :: int

text \<open>\<open>respond\<close> of \<open>query\<close>: the message is pushed only when there is one.\<close>

definition respond_query :: "query_result \<Rightarrow> int \<Rightarrow> string option \<Rightarrow> query_result" where
  "respond_query result c message =
     result\<lparr>code := c,
            content := Chunks (case message of None \<Rightarrow> [] | Some m \<Rightarrow> if m = [] then [] else [m])\<rparr>"

text \<open>Lines 245 and 246: the skip value.\<close>

definition startPosition :: "query_result \<Rightarrow> obj \<Rightarrow> int \<Rightarrow> jsnum throwing" where
  "startPosition result options n =
     (case hasOwnProperty options ''position'' of
        Inl e \<Rightarrow> Inl e
      | Inr has \<Rightarrow>
         Inr (if has \<and> \<not> js_isNaN (obj_get options ''position'')
              then parseInt (obj_get options ''position'')
              else Num (n - limit result)))"

text \<open>Lines 257 to 260: the property that receives the timestamp, \<open>undefined\<close> for none.\<close>

definition timestampProperty :: "obj \<Rightarrow> jsval throwing" where
  "timestampProperty options =
     (case hasOwnProperty options ''timestamp'' of
        Inl e \<Rightarrow> Inl e
      | Inr has \<Rightarrow>
         Inr (if has
              then (if truthy (obj_get options ''timestamp'') then obj_get options ''timestamp''
                    else JStr ''timestamp'')
              else JUndefined))"

text \<open>The \<open>transform\<close> of the cursor's stream: what is emitted for one stored document.\<close>

definition streamTransform :: "jsval \<Rightarrow> obj \<Rightarrow> jsval throwing" where
  "streamTransform tsProperty item =
     (let data = obj_get item ''__data''
      in if truthy tsProperty
         then setProp data (to_string tsProperty) (obj_get item ''__timestamp'')
         else Inr data)"

text \<open>
  The second callback (lines 236 to 280), with the \<open>catch\<close> that follows it: \<open>result\<close> keeps
  what was assigned before a throw.
\<close>

definition window :: "query_result \<Rightarrow> obj \<Rightarrow> int \<Rightarrow> cursor \<Rightarrow> query_result" where
  "window result options n cur =
     (let result1 = result\<lparr>recordsCount := n\<rparr>
      in case startPosition result1 options n of
           Inl e \<Rightarrow> respond_query result1 500 (Some ''Internal server error'')
         | Inr start \<Rightarrow>
            (let result2 = result1\<lparr>position := Some start\<rparr>
             in if js_lt start (Num 1) \<or> js_lt (Num n) start
                then respond_query (result2\<lparr>contentType := ''application/json''\<rparr>) 200 None
                else (case timestampProperty options of
                        Inl e \<Rightarrow> respond_query result2 500 (Some ''Internal server error'')
                      | Inr tsProperty \<Rightarrow>
                         (case skip cur (js_sub start (Num 1)) of
                            Inl e \<Rightarrow> respond_query result2 500 (Some ''Internal server error'')
                          | Inr docs \<Rightarrow>
                              result2\<lparr>code := 200, contentType := ''application/json'',
                                      content := Documents (map (streamTransform tsProperty) docs)\<rparr>))))"

text \<open>
  \<open>exports.query\<close>: the result the promise resolves with.  The first callback builds the
  predicate, calls \<open>find\<close> and \<open>count\<close>; a throw or a rejection in it reaches the \<open>catch\<close>.
\<close>

definition query :: "config \<Rightarrow> runtime \<Rightarrow> store \<Rightarrow> string \<Rightarrow> obj \<Rightarrow> obj \<Rightarrow> query_result" where
  "query cfg rt store path filter' options =
     (let result = \<lparr>code = 0, contentType = ''text/plain'', content = Chunks [],
                    limit = defaultLimit cfg, position = None, recordsCount = 0\<rparr>
      in case store path of
           None \<Rightarrow> respond_query result 404 (Some ''Not found'')
         | Some h \<Rightarrow>
            (case collection h of
               Rejected e \<Rightarrow> respond_query result 500 (Some ''Internal server error'')
             | Fulfilled c \<Rightarrow>
                (case buildQuery rt h filter' options of
                   Inl e \<Rightarrow> respond_query result 500 (Some ''Internal server error'')
                 | Inr predicate \<Rightarrow>
                    (case find_cursor c predicate of
                       Inl e \<Rightarrow> respond_query result 500 (Some ''Internal server error'')
                     | Inr cur \<Rightarrow>
                        (case count cur of
                           Rejected e \<Rightarrow> respond_query result 500 (Some ''Internal server error'')
                         | Fulfilled n \<Rightarrow> window result options n cur)))))"

section \<open>The link envelope: \<open>command/server.js\<close>\<close>









section \<open>The registration of the repository, and collaborators to run it against\<close>

text \<open>
  The index file registers \<open>v1/logs\<close> with one required string field \<open>type\<close>, validated by
  \<open>['info', 'warn', 'error'].indexOf(value) !== -1\<close>.
\<close>

definition logs_indexes :: "(string \<times> properties) list" where
  "logs_indexes =
     [(''type'', no_rules\<lparr>required := JBool True, type := JStr ''string'',
         validator := HFun (\<lambda>v. Inr (JBool (v \<in> set [JStr ''info'', JStr ''warn'', JStr ''error''])))\<rparr>)]"

text \<open>
  A collection that holds \<open>docs\<close>: \<open>insertOne\<close> returns the promise \<open>written\<close>, and \<open>find\<close>
  answers with a cursor over \<open>docs\<close> (which documents match a predicate is the engine's business).
\<close>

definition collection_of :: "unit promise \<Rightarrow> obj list \<Rightarrow> collection" where
  "collection_of written docs =
     \<lparr>insertOne = (\<lambda>item. Inr written), find_cursor = (\<lambda>predicate. Inr (list_cursor docs))\<rparr>"

definition logs_entry :: "unit promise \<Rightarrow> obj list \<Rightarrow> entry" where
  "logs_entry written docs =
     \<lparr>collection = Fulfilled (collection_of written docs), indexes = logs_indexes,
      keys = [''type''], transform = HVal JUndefined\<rparr>"

definition logs_store :: "unit promise \<Rightarrow> obj list \<Rightarrow> store" where
  "logs_store written docs = [''v1/logs'' \<mapsto> logs_entry written docs]"






text \<open>A runtime that parses one date, and a page size of ten.\<close>

definition sample_runtime :: runtime where
  "sample_runtime =
     \<lparr>dateParse = (\<lambda>s. if s = ''2016-01-01T00:00:00Z'' then Some 1451606400000 else None),
      parseFloat = (\<lambda>s. NaN)\<rparr>"

definition sample_config :: config where
  "sample_config = \<lparr>defaultLimit = 10\<rparr>"

text \<open>A stored document, as \<open>add\<close> writes it.\<close>

definition stored_info :: obj where
  "stored_info =
     [(''type'', JStr ''info''), (''__timestamp'', JNum (Num 1451606400000)),
      (''__data'', JObj [(''type'', JStr ''info''), (''message'', JStr ''Message #1'')])]"


section \<open>Validation order in \<open>add\<close>\<close>












section \<open>Unregistered paths\<close>

text \<open>
  C2.  For a path that \<open>handle\<close> has not registered, \<open>add\<close> resolves with code 404 and
  the body \<open>Not found\<close>, and makes no call on any collection.
\<close>

theorem add_unregistered_path:
  assumes "store path = None"
  shows "add store now path data = (respond 404 ''Not found'', [])
       \<and> code (fst (add store now path data)) = 404
       \<and> content (fst (add store now path data)) = Chunks [''Not found'']
       \<and> snd (add store now path data) = []"
  using assms by (simp add: add_def respond_def)

theorem add_unregistered_path_witness:
  "add (logs_store (Fulfilled ()) []) 0 ''v1/other'' (JObj [(''type'', JStr ''info'')])
     = (respond 404 ''Not found'', [])"
proof -
  have "logs_store (Fulfilled ()) [] ''v1/other'' = None" by (simp add: logs_store_def)
  from add_unregistered_path
    [where store = "logs_store (Fulfilled ()) []" and path = "''v1/other''", OF this]
  show ?thesis by simp
qed

section \<open>Registration without an index configuration\<close>

text \<open>
  C10.  \<open>handle\<close> called with the path alone throws a \<open>TypeError\<close>: \<open>Object.keys(indexes)\<close>
  runs on \<open>undefined\<close> before the default \<open>indexes = {}\<close> is assigned, so nothing is
  registered.
\<close>

theorem handle_single_argument_throws:
  "handle database store path PathOnly
     = Inl (TypeError ''Cannot convert undefined or null to object'')"
  by (simp add: handle_def)

theorem handle_single_argument_throws_witness:
  "handle (Fulfilled (\<lambda>p. Inr (collection_of (Fulfilled ()) []))) Map.empty ''v1/logs'' PathOnly
     = Inl (TypeError ''Cannot convert undefined or null to object'')"
  using handle_single_argument_throws
    [of "Fulfilled (\<lambda>p. Inr (collection_of (Fulfilled ()) []))" Map.empty "''v1/logs''"]
  by simp

section \<open>Evaluating the sample registration\<close>

lemmas numeric_defs = is_numeric_string_def trim_ws_def is_ws_def is_radix_literal_def
  is_decimal_literal_def strip_sign_def is_digit_def is_exponent_def digits_only_def
  parseInt_def radix_digit_def digit_value_def

lemma logs_add_info:
  "add (logs_store w docs) now ''v1/logs'' (JObj [(''type'', JStr ''info'')])
     = (respond 200 [],
        [InsertOne ''v1/logs''
           [(''type'', JStr ''info''), (''__timestamp'', JNum (Num now)),
            (''__data'', JObj [(''type'', JStr ''info'')])]])"
  by (simp add: add_def logs_store_def logs_entry_def logs_indexes_def no_rules_def
      buildItem_def applyTransform_def fieldValue_def hasOwnProperty_def has_key_def obj_get_def
      saveItem_def collection_of_def respond_def)

section \<open>What \<open>add\<close> persists\<close>

lemma forEachKey_keys:
  "forEachKey ixs d ks item = Inr item' \<Longrightarrow> fst ` set item' = set ks \<union> fst ` set item"
  by (induction ks arbitrary: item) (auto split: sum.splits simp: dom_update)

lemma forEachKey_distinct:
  "forEachKey ixs d ks item = Inr item' \<Longrightarrow> distinct (map fst item) \<Longrightarrow> distinct (map fst item')"
  by (induction ks arbitrary: item) (auto split: sum.splits simp: distinct_update)

lemma forEachKey_other:
  "forEachKey ixs d ks item = Inr item' \<Longrightarrow> k \<notin> set ks \<Longrightarrow> map_of item' k = map_of item k"
  by (induction ks arbitrary: item) (auto split: sum.splits simp: update_conv')

lemma forEachKey_values:
  "forEachKey ixs d ks item = Inr item' \<Longrightarrow> k \<in> set ks \<Longrightarrow>
   \<exists>v. fieldValue ixs d k = Inr v \<and> map_of item' k = Some v"
proof (induction ks arbitrary: item)
  case Nil
  then show ?case by simp
next
  case (Cons key rest)
  from Cons.prems(1) obtain v where v: "fieldValue ixs d key = Inr v"
    and rest: "forEachKey ixs d rest (AList.update key v item) = Inr item'"
    by (auto split: sum.splits)
  show ?case
  proof (cases "k \<in> set rest")
    case True
    from Cons.IH [OF rest True] show ?thesis .
  next
    case False
    with Cons.prems(2) have "k = key" by simp
    with forEachKey_other [OF rest False] v show ?thesis by (simp add: update_conv')
  qed
qed

lemma saveItem_success:
  "code (fst (saveItem h path item)) = 200 \<Longrightarrow> snd (saveItem h path item) = [InsertOne path item]"
  by (cases "collection h") (auto simp: saveItem_def respond_def split: sum.splits)

text \<open>
  C9, as the claim states it, fails: the object handed to \<open>insertOne\<close> has, besides the
  declared index fields and \<open>__timestamp\<close>, the field \<open>__data\<close> holding the payload.
  For the registration \<open>v1/logs\<close> and the input \<open>{type: 'info'}\<close> the stored keys are
  \<open>type\<close>, \<open>__timestamp\<close> and \<open>__data\<close>, and \<open>__data\<close> is neither declared nor the timestamp.
\<close>

theorem add_also_stores_payload_counterexample:
  "add (logs_store (Fulfilled ()) []) 5 ''v1/logs'' (JObj [(''type'', JStr ''info'')])
     = (respond 200 [],
        [InsertOne ''v1/logs''
           [(''type'', JStr ''info''), (''__timestamp'', JNum (Num 5)),
            (''__data'', JObj [(''type'', JStr ''info'')])]])
   \<and> ''__data'' \<in> fst ` set [(''type'', JStr ''info''), (''__timestamp'', JNum (Num 5)),
                              (''__data'', JObj [(''type'', JStr ''info'')])]
   \<and> ''__data'' \<notin> set (keys (logs_entry (Fulfilled ()) [])) \<union> {''__timestamp''}"
  by (simp add: add_def logs_store_def logs_entry_def logs_indexes_def no_rules_def
      buildItem_def applyTransform_def fieldValue_def hasOwnProperty_def has_key_def obj_get_def
      saveItem_def collection_of_def respond_def)

text \<open>
  C9, amended.  When \<open>add\<close> on a registered path resolves with code 200, exactly one
  \<open>insertOne\<close> was called, on an object whose fields are exactly the declared index
  fields and the two reserved fields \<open>__timestamp\<close> and \<open>__data\<close>, each once: a declared
  field holds the value its rules give for the (transformed) input, \<open>__timestamp\<close> holds
  the time of the call and \<open>__data\<close> the (transformed) input itself.
\<close>

theorem add_persists_fields_timestamp_and_payload:
  assumes reg: "store path = Some h"
    and ok: "code (fst (add store now path data)) = 200"
  shows "\<exists>d item. applyTransform h data = Inr d
           \<and> snd (add store now path data) = [InsertOne path item]
           \<and> fst ` set item = set (keys h) \<union> {''__timestamp'', ''__data''}
           \<and> distinct (map fst item)
           \<and> (\<forall>k \<in> set (keys h) - {''__timestamp'', ''__data''}.
                 fieldValue (indexes h) d k = Inr (obj_get item k))
           \<and> obj_get item ''__timestamp'' = JNum (Num now)
           \<and> obj_get item ''__data'' = d"
proof -
  from ok reg obtain item where built: "buildItem h now data = Inr item"
    and saved: "add store now path data = saveItem h path item"
    by (auto simp: add_def respond_def split: sum.splits)
  from built obtain d fields where tr: "applyTransform h data = Inr d"
    and loop: "forEachKey (indexes h) d (keys h) [] = Inr fields"
    and item: "item = AList.update ''__data'' d (AList.update ''__timestamp'' (JNum (Num now)) fields)"
    by (auto simp: buildItem_def split: sum.splits)
  have ops: "snd (add store now path data) = [InsertOne path item]"
    using ok saved saveItem_success by simp
  have dom: "fst ` set item = set (keys h) \<union> {''__timestamp'', ''__data''}"
    using forEachKey_keys [OF loop] by (auto simp: item dom_update)
  have dist: "distinct (map fst item)"
    using forEachKey_distinct [OF loop] by (simp add: item distinct_update)
  have vals: "fieldValue (indexes h) d k = Inr (obj_get item k)"
    if "k \<in> set (keys h) - {''__timestamp'', ''__data''}" for k
  proof -
    from that forEachKey_values [OF loop, of k] obtain v
      where "fieldValue (indexes h) d k = Inr v" "map_of fields k = Some v" by auto
    with that show ?thesis by (simp add: item obj_get_def update_conv')
  qed
  have ts: "obj_get item ''__timestamp'' = JNum (Num now)"
    by (simp add: item obj_get_def update_conv')
  have pl: "obj_get item ''__data'' = d"
    by (simp add: item obj_get_def update_conv')
  from tr ops dom dist vals ts pl show ?thesis by auto
qed

theorem add_persists_fields_timestamp_and_payload_witness:
  "logs_store (Fulfilled ()) [] ''v1/logs'' = Some (logs_entry (Fulfilled ()) [])
   \<and> code (fst (add (logs_store (Fulfilled ()) []) 5 ''v1/logs''
                   (JObj [(''type'', JStr ''info'')]))) = 200
   \<and> (\<exists>d item.
         applyTransform (logs_entry (Fulfilled ()) []) (JObj [(''type'', JStr ''info'')]) = Inr d
       \<and> snd (add (logs_store (Fulfilled ()) []) 5 ''v1/logs'' (JObj [(''type'', JStr ''info'')]))
           = [InsertOne ''v1/logs'' item]
       \<and> fst ` set item = set (keys (logs_entry (Fulfilled ()) [])) \<union> {''__timestamp'', ''__data''}
       \<and> distinct (map fst item)
       \<and> (\<forall>k \<in> set (keys (logs_entry (Fulfilled ()) [])) - {''__timestamp'', ''__data''}.
             fieldValue (indexes (logs_entry (Fulfilled ()) [])) d k = Inr (obj_get item k))
       \<and> obj_get item ''__timestamp'' = JNum (Num 5)
       \<and> obj_get item ''__data'' = d)"
proof -
  have reg: "logs_store (Fulfilled ()) [] ''v1/logs'' = Some (logs_entry (Fulfilled ()) [])"
    by (simp add: logs_store_def)
  have ok: "code (fst (add (logs_store (Fulfilled ()) []) 5 ''v1/logs''
                   (JObj [(''type'', JStr ''info'')]))) = 200"
    by (simp add: logs_add_info respond_def)
  note concl = add_persists_fields_timestamp_and_payload
    [where store = "logs_store (Fulfilled ()) []" and path = "''v1/logs''", OF reg ok]
  show ?thesis by (rule conjI [OF reg conjI [OF ok concl]])
qed

section \<open>A failing \<open>insertOne\<close>\<close>

text \<open>
  C8 does not hold of the code.  The callback that calls \<open>insertOne\<close> does not return the
  promise it gets, so a write that fails by rejecting that promise is not seen by the
  \<open>catch\<close>: for a registered path and a valid record, \<open>add\<close> resolves with code 200 and
  an empty body although the insert was rejected.  (Only an \<open>insertOne\<close> that throws, or a
  rejected collection, reaches the 500 response.)
\<close>

theorem add_reports_success_when_insert_rejects:
  assumes "store path = Some h"
    and "buildItem h now data = Inr item"
    and "collection h = Fulfilled c"
    and "insertOne c item = Inr (Rejected err)"
  shows "add store now path data = (respond 200 [], [InsertOne path item])"
  using assms by (simp add: add_def saveItem_def)

theorem add_reports_success_when_insert_rejects_witness:
  "add (logs_store (Rejected (Error ''write failed'')) []) 5 ''v1/logs''
       (JObj [(''type'', JStr ''info'')])
     = (respond 200 [],
        [InsertOne ''v1/logs''
           [(''type'', JStr ''info''), (''__timestamp'', JNum (Num 5)),
            (''__data'', JObj [(''type'', JStr ''info'')])]])"
proof -
  let ?w = "Rejected (Error ''write failed'') :: unit promise"
  let ?item = "[(''type'', JStr ''info''), (''__timestamp'', JNum (Num 5)),
                (''__data'', JObj [(''type'', JStr ''info'')])]"
  have reg: "logs_store ?w [] ''v1/logs'' = Some (logs_entry ?w [])"
    by (simp add: logs_store_def)
  have built: "buildItem (logs_entry ?w []) 5 (JObj [(''type'', JStr ''info'')]) = Inr ?item"
    by (simp add: logs_entry_def logs_indexes_def no_rules_def buildItem_def
        applyTransform_def fieldValue_def hasOwnProperty_def has_key_def obj_get_def)
  have coll: "collection (logs_entry ?w []) = Fulfilled (collection_of ?w [])"
    by (simp add: logs_entry_def)
  have ins: "insertOne (collection_of ?w []) ?item = Inr ?w"
    by (simp add: collection_of_def)
  from add_reports_success_when_insert_rejects
    [where store = "logs_store ?w []" and path = "''v1/logs''", OF reg built coll ins]
  show ?thesis .
qed

text \<open>The two failures the \<open>catch\<close> does see: a rejected collection, and an \<open>insertOne\<close> that throws.\<close>

lemma add_collection_rejected:
  assumes "store path = Some h"
    and "buildItem h now data = Inr item"
    and "collection h = Rejected err"
  shows "add store now path data = (respond 500 ''Internal server error'', [])"
  using assms by (simp add: add_def saveItem_def)

lemma add_insert_throws:
  assumes "store path = Some h"
    and "buildItem h now data = Inr item"
    and "collection h = Fulfilled c"
    and "insertOne c item = Inl err"
  shows "add store now path data
           = (respond 500 ''Internal server error'', [InsertOne path item])"
  using assms by (simp add: add_def saveItem_def)

section \<open>Time bounds in \<open>buildQuery\<close>\<close>

lemma parseTime_defined: "typeof (parseTime rt t) \<noteq> ''undefined''"
  by (simp add: parseTime_def split: option.splits)



text \<open>
  \<open>buildQuery\<close> throws exactly when the options have an own property \<open>hasOwnProperty\<close>;
  otherwise it returns the compiled filter, with \<open>__timestamp\<close> set from the bound that
  was assigned last.
\<close>

lemma buildQuery_shadowed:
  "has_key options ''hasOwnProperty'' \<Longrightarrow>
   buildQuery rt item f options = Inl (TypeError ''hasOwnProperty is not a function'')"
  by (simp add: buildQuery_def hasOwnProperty_def)

lemma buildQuery_plain:
  assumes "\<not> has_key options ''hasOwnProperty''"
  shows "buildQuery rt item f options =
     Inr (if has_key options ''endTime''
          then AList.update ''__timestamp''
                 (JObj [(''$gte'', parseTime rt (obj_get options ''endTime''))])
                 (fold (filterStep rt item f) (map fst f) [])
          else if has_key options ''startTime''
          then AList.update ''__timestamp''
                 (JObj [(''$gte'', parseTime rt (obj_get options ''startTime''))])
                 (fold (filterStep rt item f) (map fst f) [])
          else fold (filterStep rt item f) (map fst f) [])"
  using assms by (simp add: buildQuery_def hasOwnProperty_def parseTime_defined)

lemma buildQuery_returned:
  "buildQuery rt item f options = Inr q \<Longrightarrow> \<not> has_key options ''hasOwnProperty''"
  using buildQuery_shadowed [of options rt item f] by auto



text \<open>
  C6 does not hold of the code.  \<open>parseTime\<close> returns \<open>null\<close> for a bound that is neither
  numeric nor a parseable date, and \<open>buildQuery\<close> drops a bound only when it is
  \<open>undefined\<close>: the unparsable bound that takes effect is kept, as the constraint
  \<open>{$gte: null}\<close>.
\<close>

theorem unparsable_bound_is_kept_as_null:
  assumes "has_key options ''startTime'' \<or> has_key options ''endTime''"
    and "\<not> has_key options ''hasOwnProperty''"
    and "bound = (if has_key options ''endTime'' then obj_get options ''endTime''
                  else obj_get options ''startTime'')"
    and "js_isNaN bound"
    and "new_Date rt bound = None"
  shows "\<exists>q. buildQuery rt item f options = Inr q
           \<and> map_of q ''__timestamp'' = Some (JObj [(''$gte'', JNull)])"
  using assms
  by (cases "has_key options ''endTime''")
     (simp_all add: buildQuery_plain parseTime_def update_conv')

theorem unparsable_bound_is_kept_as_null_witness:
  "js_isNaN (JStr ''abc'') \<and> new_Date sample_runtime (JStr ''abc'') = None
   \<and> buildQuery sample_runtime (logs_entry (Fulfilled ()) []) [(''type'', JStr ''info'')]
        [(''startTime'', JStr ''abc'')]
       = Inr [(''type'', JStr ''info''), (''__timestamp'', JObj [(''$gte'', JNull)])]"
proof -
  let ?opts = "[(''startTime'', JStr ''abc'')]"
  have k: "has_key ?opts ''startTime'' \<or> has_key ?opts ''endTime''"
    and plain: "\<not> has_key ?opts ''hasOwnProperty''"
    by (simp_all add: has_key_def)
  have b: "JStr ''abc'' = (if has_key ?opts ''endTime'' then obj_get ?opts ''endTime''
                           else obj_get ?opts ''startTime'')"
    by (simp add: has_key_def obj_get_def)
  have n: "js_isNaN (JStr ''abc'')" by (simp add: numeric_defs)
  have d: "new_Date sample_runtime (JStr ''abc'') = None" by (simp add: sample_runtime_def)
  from unparsable_bound_is_kept_as_null [OF k plain b n d,
      of "logs_entry (Fulfilled ()) []" "[(''type'', JStr ''info'')]"]
  obtain q where q: "buildQuery sample_runtime (logs_entry (Fulfilled ()) [])
                       [(''type'', JStr ''info'')] ?opts = Inr q"
    and ts: "map_of q ''__timestamp'' = Some (JObj [(''$gte'', JNull)])"
    by blast
  have "buildQuery sample_runtime (logs_entry (Fulfilled ()) []) [(''type'', JStr ''info'')] ?opts
       = Inr [(''type'', JStr ''info''), (''__timestamp'', JObj [(''$gte'', JNull)])]"
    using buildQuery_plain [OF plain, of sample_runtime "logs_entry (Fulfilled ()) []"
        "[(''type'', JStr ''info'')]"] n d
    by (simp add: has_key_def obj_get_def parseTime_def filterStep_def filterValue_def
        logs_entry_def logs_indexes_def no_rules_def)
  with n d q show ?thesis by simp
qed

section \<open>The window of \<open>query\<close>\<close>

lemma query_counted:
  assumes "store path = Some h" "collection h = Fulfilled c"
    "buildQuery rt h f options = Inr q"
    "find_cursor c q = Inr cur" "count cur = Fulfilled n"
  shows "query cfg rt store path f options
     = window \<lparr>code = 0, contentType = ''text/plain'', content = Chunks [],
               limit = defaultLimit cfg, position = None, recordsCount = 0\<rparr> options n cur"
  using assms by (simp add: query_def)

text \<open>
  A query whose options have an own property \<open>hasOwnProperty\<close> does not get as far as a
  position: \<open>buildQuery\<close> throws, and the answer is the internal error.
\<close>

lemma query_shadowed_options:
  assumes "store path = Some h" "collection h = Fulfilled c"
    "has_key options ''hasOwnProperty''"
  shows "query cfg rt store path f options
     = \<lparr>code = 500, contentType = ''text/plain'', content = Chunks [''Internal server error''],
        limit = defaultLimit cfg, position = None, recordsCount = 0\<rparr>"
  using assms by (simp add: query_def buildQuery_shadowed respond_query_def)



text \<open>
  C7 does not hold of the code.  The option is documented as \<open>timestampProperty\<close>, and
  the code reads \<open>options.timestamp\<close>.  A query whose options name a property under
  \<open>timestampProperty\<close> (and have no \<open>timestamp\<close>) emits, for an in-bounds window, the
  bare payload of every document: no property is added.
\<close>

theorem timestampProperty_option_is_not_read:
  assumes reg: "store path = Some h"
    and coll: "collection h = Fulfilled c"
    and compiled: "buildQuery rt h f options = Inr q"
    and found: "find_cursor c q = Inr cur"
    and counted: "count cur = Fulfilled n"
    and named: "has_key options ''timestampProperty''"
    and other: "\<not> has_key options ''timestamp''"
    and start: "startPosition \<lparr>code = 0, contentType = ''text/plain'', content = Chunks [],
                   limit = defaultLimit cfg, position = None, recordsCount = n\<rparr> options n
                 = Inr (Num p)"
    and inside: "1 \<le> p \<and> p \<le> n"
    and docs: "skip cur (Num (p - 1)) = Inr docs"
  shows "content (query cfg rt store path f options)
           = Documents (map (\<lambda>item. Inr (obj_get item ''__data'')) docs)"
proof -
  have "timestampProperty options = Inr JUndefined"
    using other buildQuery_returned [OF compiled]
    by (simp add: timestampProperty_def hasOwnProperty_def)
  then show ?thesis
    using inside docs start
    by (simp add: query_counted [where store = store and path = path,
          OF reg coll compiled found counted] window_def Let_def streamTransform_def)
qed

theorem timestampProperty_option_is_not_read_witness:
  "content (query sample_config sample_runtime (logs_store (Fulfilled ()) [stored_info]) ''v1/logs'' []
              [(''timestampProperty'', JStr ''ts''), (''position'', JStr ''1'')])
     = Documents [Inr (JObj [(''type'', JStr ''info''), (''message'', JStr ''Message #1'')])]"
proof -
  let ?opts = "[(''timestampProperty'', JStr ''ts''), (''position'', JStr ''1'')]"
  have reg: "logs_store (Fulfilled ()) [stored_info] ''v1/logs''
               = Some (logs_entry (Fulfilled ()) [stored_info])"
    by (simp add: logs_store_def)
  have coll: "collection (logs_entry (Fulfilled ()) [stored_info])
               = Fulfilled (collection_of (Fulfilled ()) [stored_info])"
    by (simp add: logs_entry_def)
  have compiled: "buildQuery sample_runtime (logs_entry (Fulfilled ()) [stored_info]) [] ?opts
               = Inr []"
    by (simp add: buildQuery_def hasOwnProperty_def has_key_def)
  have found: "find_cursor (collection_of (Fulfilled ()) [stored_info]) []
               = Inr (list_cursor [stored_info])"
    by (simp add: collection_of_def)
  have counted: "count (list_cursor [stored_info]) = Fulfilled 1" by (simp add: list_cursor_def)
  have named: "has_key ?opts ''timestampProperty''" by (simp add: has_key_def)
  have other: "\<not> has_key ?opts ''timestamp''" by (simp add: has_key_def)
  have start: "startPosition \<lparr>code = 0, contentType = ''text/plain'', content = Chunks [],
                   limit = defaultLimit sample_config, position = None, recordsCount = 1\<rparr> ?opts 1
                 = Inr (Num 1)"
    by (simp add: startPosition_def hasOwnProperty_def has_key_def obj_get_def numeric_defs)
  have inside: "(1::int) \<le> 1 \<and> (1::int) \<le> 1" by simp
  have docs: "skip (list_cursor [stored_info]) (Num (1 - 1)) = Inr [stored_info]"
    by (simp add: list_cursor_def)
  from timestampProperty_option_is_not_read
    [where store = "logs_store (Fulfilled ()) [stored_info]" and path = "''v1/logs''",
     OF reg coll compiled found counted named other start inside docs]
  show ?thesis by (simp add: stored_info_def obj_get_def)
qed

text \<open>
Under the name the code reads, \<open>timestamp\<close>, the same query annotates the payload.
\<close>

lemma timestamp_option_is_read:
  "content (query sample_config sample_runtime (logs_store (Fulfilled ()) [stored_info]) ''v1/logs'' []
              [(''timestamp'', JStr ''ts''), (''position'', JStr ''1'')])
     = Documents [Inr (JObj [(''type'', JStr ''info''), (''message'', JStr ''Message #1''),
                             (''ts'', JNum (Num 1451606400000))])]"
  by (simp add: query_def buildQuery_def window_def startPosition_def timestampProperty_def
      hasOwnProperty_def streamTransform_def
      logs_store_def logs_entry_def collection_of_def list_cursor_def stored_info_def
      sample_config_def has_key_def obj_get_def numeric_defs)

text \<open>
The no-break space is white space: a \<open>position\<close> of \<open>U+00A0\<close> followed by \<open>5\<close> is 5.
\<close>

lemma position_with_no_break_space:
  "js_isNaN (JStr [CHR 0xA0, CHR ''5'']) = False \<and> parseInt (JStr [CHR 0xA0, CHR ''5'']) = Num 5"
  by (simp add: numeric_defs)

section \<open>The links of \<open>pushQueryStreamStart\<close>\<close>



















end
